theory Spec2Isabelle
  imports Main "HOL-Library.Word"
begin

section \<open>Python values used by the tool server\<close>

text \<open>
  A Python \<open>str\<close> is a sequence of Unicode code points, a \<open>bytes\<close> object a sequence of
  octets. String literals of the source that are not plain ASCII are written by their code
  points; \<open>ascii\<close> embeds an ASCII literal.
\<close>

type_synonym pystr = "nat list"
type_synonym byte = "8 word"
type_synonym bytes = "byte list"

definition ascii :: "string \<Rightarrow> pystr" where
  "ascii s = map of_char s"

text \<open>
  Exceptions: the class (as far as a handler of the source tells classes apart) and the
  text \<open>str(e)\<close>. Only subclasses of \<open>Exception\<close> are modelled; \<open>ImageNotFound\<close> is a
  subclass of \<open>NotFound\<close> in the engine's client library.
\<close>

datatype exn_class =
    DockerNotFound | DockerImageNotFound | DockerAPIError
  | UnicodeDecodeError | AttributeError | TypeError | IndexError
  | SyntaxError | ValueError | OSError | OtherException

datatype exn = Exn exn_class pystr

fun str_exn :: "exn \<Rightarrow> pystr" where
  "str_exn (Exn k m) = m"

fun isinstance_NotFound :: "exn \<Rightarrow> bool" where
  "isinstance_NotFound (Exn k m) = (k = DockerNotFound \<or> k = DockerImageNotFound)"

text \<open>The values \<open>ast.literal_eval\<close> can return.\<close>

datatype pyval =
    PyNone
  | PyBool bool
  | PyInt int
  | PyFloat pystr
  | PyStr pystr
  | PyBytes bytes
  | PyTuple "pyval list"
  | PyList "pyval list"
  | PySet "pyval list"
  | PyDict "(pyval \<times> pyval) list"

subsection \<open>Formatting integers\<close>

function str_nat :: "nat \<Rightarrow> pystr" where
  "str_nat n = (if n < 10 then [48 + n] else str_nat (n div 10) @ [48 + n mod 10])"
  by pat_completeness auto
termination
  by (relation "measure id") auto

declare str_nat.simps [simp del]

definition str_int :: "int \<Rightarrow> pystr" where
  "str_int i = (if i < 0 then 45 # str_nat (nat (- i)) else str_nat (nat i))"

definition hex_digit :: "nat \<Rightarrow> nat" where
  "hex_digit d = (if d < 10 then 48 + d else 87 + d)"

text \<open>\<open>'%02x'\<close> of an octet and \<open>'{0:04x}'\<close> of a number below \<open>0x10000\<close>.\<close>

definition hex2 :: "nat \<Rightarrow> pystr" where
  "hex2 n = [hex_digit (n div 16 mod 16), hex_digit (n mod 16)]"

definition hex4 :: "nat \<Rightarrow> pystr" where
  "hex4 n = [hex_digit (n div 4096 mod 16), hex_digit (n div 256 mod 16),
             hex_digit (n div 16 mod 16), hex_digit (n mod 16)]"

subsection \<open>\<open>str.strip()\<close>, \<open>str.startswith\<close>, \<open>str.endswith\<close>\<close>

definition py_isspace :: "nat \<Rightarrow> bool" where
  "py_isspace c = ((9 \<le> c \<and> c \<le> 13) \<or> (28 \<le> c \<and> c \<le> 32) \<or> c = 0x85 \<or> c = 0xA0
     \<or> c = 0x1680 \<or> (0x2000 \<le> c \<and> c \<le> 0x200A) \<or> c = 0x2028 \<or> c = 0x2029
     \<or> c = 0x202F \<or> c = 0x205F \<or> c = 0x3000)"

definition strip :: "pystr \<Rightarrow> pystr" where
  "strip s = rev (dropWhile py_isspace (rev (dropWhile py_isspace s)))"

definition startswith :: "pystr \<Rightarrow> pystr \<Rightarrow> bool" where
  "startswith s p = (take (length p) s = p)"

definition endswith :: "pystr \<Rightarrow> pystr \<Rightarrow> bool" where
  "endswith s p = (length p \<le> length s \<and> drop (length s - length p) s = p)"

text \<open>\<open>sub in s\<close> for strings.\<close>

fun py_in :: "pystr \<Rightarrow> pystr \<Rightarrow> bool" where
  "py_in sub [] = (sub = [])"
| "py_in sub (c # s) = (startswith (c # s) sub \<or> py_in sub s)"

subsection \<open>\<open>bytes.decode('utf-8')\<close>\<close>

text \<open>
  One step of the UTF-8 decoder on the bytes that remain: the code point and the number of
  bytes it took, or the number of bytes the error covers and the reason. The cases are
  those of the CPython decoder: overlong forms, surrogates and code points above
  \<open>0x10FFFF\<close> are rejected at the second byte, and a sequence cut off by the end of the data
  is an error that covers the rest of the data.
\<close>

datatype utf8_step_result = Decoded nat nat | Invalid nat pystr

definition invalid_start :: pystr where
  "invalid_start = ascii ''invalid start byte''"

definition invalid_continuation :: pystr where
  "invalid_continuation = ascii ''invalid continuation byte''"

definition unexpected_end :: pystr where
  "unexpected_end = ascii ''unexpected end of data''"

definition is_continuation :: "byte \<Rightarrow> bool" where
  "is_continuation b = (0x80 \<le> b \<and> b < 0xC0)"

definition cont_bits :: "byte \<Rightarrow> nat" where
  "cont_bits b = unat b - 0x80"

definition utf8_step :: "byte \<Rightarrow> bytes \<Rightarrow> utf8_step_result" where
  "utf8_step b bs =
    (if b < 0x80 then Decoded (unat b) 1
     else if b < 0xC2 then Invalid 1 invalid_start
     else if b < 0xE0 then
       (case bs of
          [] \<Rightarrow> Invalid 1 unexpected_end
        | b2 # _ \<Rightarrow>
            if \<not> is_continuation b2 then Invalid 1 invalid_continuation
            else Decoded ((unat b - 0xC0) * 64 + cont_bits b2) 2)
     else if b < 0xF0 then
       (case bs of
          [] \<Rightarrow> Invalid 1 unexpected_end
        | [b2] \<Rightarrow>
            if \<not> is_continuation b2 then Invalid 1 invalid_continuation
            else if (if b2 < 0xA0 then b = 0xE0 else b = 0xED)
            then Invalid 1 invalid_continuation
            else Invalid 2 unexpected_end
        | b2 # b3 # _ \<Rightarrow>
            if \<not> is_continuation b2 then Invalid 1 invalid_continuation
            else if b = 0xE0 \<and> b2 < 0xA0 then Invalid 1 invalid_continuation
            else if b = 0xED \<and> 0xA0 \<le> b2 then Invalid 1 invalid_continuation
            else if \<not> is_continuation b3 then Invalid 2 invalid_continuation
            else Decoded ((unat b - 0xE0) * 4096 + cont_bits b2 * 64 + cont_bits b3) 3)
     else if b < 0xF5 then
       (case bs of
          [] \<Rightarrow> Invalid 1 unexpected_end
        | [b2] \<Rightarrow>
            if \<not> is_continuation b2 then Invalid 1 invalid_continuation
            else if (if b2 < 0x90 then b = 0xF0 else b = 0xF4)
            then Invalid 1 invalid_continuation
            else Invalid 2 unexpected_end
        | [b2, b3] \<Rightarrow>
            if \<not> is_continuation b2 then Invalid 1 invalid_continuation
            else if (if b2 < 0x90 then b = 0xF0 else b = 0xF4)
            then Invalid 1 invalid_continuation
            else if \<not> is_continuation b3 then Invalid 2 invalid_continuation
            else Invalid 3 unexpected_end
        | b2 # b3 # b4 # _ \<Rightarrow>
            if \<not> is_continuation b2 then Invalid 1 invalid_continuation
            else if b = 0xF0 \<and> b2 < 0x90 then Invalid 1 invalid_continuation
            else if b = 0xF4 \<and> 0x90 \<le> b2 then Invalid 1 invalid_continuation
            else if \<not> is_continuation b3 then Invalid 2 invalid_continuation
            else if \<not> is_continuation b4 then Invalid 3 invalid_continuation
            else Decoded ((unat b - 0xF0) * 262144 + cont_bits b2 * 4096
                          + cont_bits b3 * 64 + cont_bits b4) 4)
     else Invalid 1 invalid_start)"

text \<open>The message of a \<open>UnicodeDecodeError\<close> for the error range \<open>[start, start + n)\<close>.\<close>

definition decode_error :: "nat \<Rightarrow> nat \<Rightarrow> byte \<Rightarrow> pystr \<Rightarrow> exn" where
  "decode_error start n b reason =
    Exn UnicodeDecodeError
      (if n = 1
       then [39] @ ascii ''utf-8'' @ [39] @ ascii '' codec can'' @ [39]
            @ ascii ''t decode byte 0x'' @ hex2 (unat b) @ ascii '' in position ''
            @ str_nat start @ ascii '': '' @ reason
       else [39] @ ascii ''utf-8'' @ [39] @ ascii '' codec can'' @ [39]
            @ ascii ''t decode bytes in position '' @ str_nat start @ ascii ''-''
            @ str_nat (start + n - 1) @ ascii '': '' @ reason)"

text \<open>
  \<open>decode('utf-8')\<close> (strict) stops at the first error; \<open>pos\<close> is the offset of the
  remaining bytes in the whole object. \<open>decode('utf-8', errors='ignore')\<close> drops the bytes
  of every error range and goes on.
\<close>

function decode_utf8_from :: "nat \<Rightarrow> bytes \<Rightarrow> exn + pystr" where
  "decode_utf8_from pos [] = Inr []"
| "decode_utf8_from pos (b # bs) =
    (case utf8_step b bs of
       Invalid n reason \<Rightarrow> Inl (decode_error pos n b reason)
     | Decoded cp n \<Rightarrow>
         (case decode_utf8_from (pos + n) (drop (n - 1) bs) of
            Inl e \<Rightarrow> Inl e
          | Inr s \<Rightarrow> Inr (cp # s)))"
  by pat_completeness auto
termination
  by (relation "measure (\<lambda>(pos, bs). length bs)") auto

definition decode_utf8 :: "bytes \<Rightarrow> exn + pystr" where
  "decode_utf8 bs = decode_utf8_from 0 bs"

function decode_utf8_ignore :: "bytes \<Rightarrow> pystr" where
  "decode_utf8_ignore [] = []"
| "decode_utf8_ignore (b # bs) =
    (case utf8_step b bs of
       Invalid n reason \<Rightarrow> decode_utf8_ignore (drop (n - 1) bs)
     | Decoded cp n \<Rightarrow> cp # decode_utf8_ignore (drop (n - 1) bs))"
  by pat_completeness auto
termination
  by (relation "measure length") auto

subsection \<open>\<open>json.dumps\<close> of strings and lists of strings\<close>

text \<open>
  \<open>json.dumps\<close> escapes with \<open>ensure_ascii\<close>: the quote, the backslash and five control
  characters have short escapes, every other character outside \<open>' '..'~'\<close> is written
  \<open>\uXXXX\<close>, as a surrogate pair above \<open>0xFFFF\<close>.
\<close>

definition json_escape :: "nat \<Rightarrow> pystr" where
  "json_escape c =
    (if c = 92 then [92, 92]
     else if c = 34 then [92, 34]
     else if c = 8 then [92, 98]
     else if c = 12 then [92, 102]
     else if c = 10 then [92, 110]
     else if c = 13 then [92, 114]
     else if c = 9 then [92, 116]
     else if 32 \<le> c \<and> c \<le> 126 then [c]
     else if c < 0x10000 then [92, 117] @ hex4 c
     else [92, 117] @ hex4 (0xD800 + (c - 0x10000) div 1024 mod 1024)
          @ [92, 117] @ hex4 (0xDC00 + (c - 0x10000) mod 1024))"

definition json_str :: "pystr \<Rightarrow> pystr" where
  "json_str s = [34] @ concat (map json_escape s) @ [34]"


fun join :: "pystr \<Rightarrow> pystr list \<Rightarrow> pystr" where
  "join sep [] = []"
| "join sep [x] = x"
| "join sep (x # y # ys) = x @ sep @ join sep (y # ys)"

text \<open>A list of strings at nesting level 1 of \<open>json.dumps(..., indent=2)\<close>.\<close>

definition json_str_list :: "pystr list \<Rightarrow> pystr" where
  "json_str_list xs =
    (if xs = [] then ascii ''[]''
     else ascii ''['' @ [10] @ ascii ''    ''
          @ join (ascii '','' @ [10] @ ascii ''    '') (map json_str xs)
          @ [10] @ ascii ''  ]'')"

section \<open>The container engine and the operating system, as the facade sees them\<close>

text \<open>
  The objects of the engine's client library, with the attributes the facade reads. The
  \<open>attrs\<close> dictionary of a container is taken with the engine's schema: the keys the
  facade subscripts are present, \<open>Config.Env\<close> may be \<open>null\<close>.
\<close>

record host_binding =
  HostIp :: pystr
  HostPort :: pystr

record mount =
  Source :: pystr
  Destination :: pystr

record container =
  c_name :: pystr
  c_short_id :: pystr
  c_status :: pystr
  c_ports :: "(pystr \<times> host_binding list option) list"
  attrs_Config_Image :: pystr
  attrs_Created :: pystr
  attrs_IPAddress :: pystr
  attrs_MacAddress :: pystr
  attrs_Mounts :: "mount list"
  attrs_Config_Env :: "pystr list option"

record docker_image =
  i_tags :: "pystr list"
  attrs_Size :: int

text \<open>
  \<open>get_archive\<close> returns a stream of chunks; reading the stream can fail after the chunks
  it has delivered.
\<close>

record archive =
  chunks :: "bytes list"
  stream_error :: "exn option"

text \<open>
  Every call that leaves the process is recorded: the calls on the engine's client and on
  the objects it returned, and the calls on the file system. The property \<open>image\<close> of a
  container asks the engine on every access.
\<close>

datatype call =
    Containers_list bool
  | Containers_get pystr
  | Containers_run pystr "pystr option" pyval "pystr option"
  | Container_image container
  | Container_start container
  | Container_stop container
  | Container_restart container
  | Container_remove container
  | Container_logs container int
  | Container_get_archive container pystr
  | Container_exec_run container pystr "pystr option"
  | Images_list
  | Images_pull pystr
  | Images_remove pystr bool
  | Images_prune
  | Os_path_exists pystr
  | Os_makedirs pystr
  | Tar_extractall bytes pystr

fun is_engine_call :: "call \<Rightarrow> bool" where
  "is_engine_call (Os_path_exists p) = False"
| "is_engine_call (Os_makedirs p) = False"
| "is_engine_call (Tar_extractall b p) = False"
| "is_engine_call c = True"

fun is_fs_write :: "call \<Rightarrow> bool" where
  "is_fs_write (Os_makedirs p) = True"
| "is_fs_write (Tar_extractall b p) = True"
| "is_fs_write c = False"

fun is_exec_call :: "call \<Rightarrow> bool" where
  "is_exec_call (Container_exec_run c cmd w) = True"
| "is_exec_call c = False"

text \<open>
  The engine handle \<open>_client\<close>: what each call answers (a value, or the exception it
  raises), given the calls made so far. The facade is verified for every such engine.
\<close>

record client =
  containers_list :: "bool \<Rightarrow> call list \<Rightarrow> exn + container list"
  containers_get :: "pystr \<Rightarrow> call list \<Rightarrow> exn + container"
  containers_run ::
    "pystr \<Rightarrow> pystr option \<Rightarrow> pyval \<Rightarrow> pystr option \<Rightarrow> call list \<Rightarrow> exn + container"
  container_image :: "container \<Rightarrow> call list \<Rightarrow> exn + docker_image option"
  container_start :: "container \<Rightarrow> call list \<Rightarrow> exn + unit"
  container_stop :: "container \<Rightarrow> call list \<Rightarrow> exn + unit"
  container_restart :: "container \<Rightarrow> call list \<Rightarrow> exn + unit"
  container_remove :: "container \<Rightarrow> call list \<Rightarrow> exn + unit"
  container_logs :: "container \<Rightarrow> int \<Rightarrow> call list \<Rightarrow> exn + bytes"
  container_get_archive :: "container \<Rightarrow> pystr \<Rightarrow> call list \<Rightarrow> exn + archive"
  container_exec_run ::
    "container \<Rightarrow> pystr \<Rightarrow> pystr option \<Rightarrow> call list
      \<Rightarrow> exn + int \<times> bytes option \<times> bytes option"
  images_list :: "call list \<Rightarrow> exn + docker_image list"
  images_pull :: "pystr \<Rightarrow> call list \<Rightarrow> exn + docker_image"
  images_remove :: "pystr \<Rightarrow> bool \<Rightarrow> call list \<Rightarrow> exn + unit"
  images_prune :: "call list \<Rightarrow> exn + unit"

record os_env =
  os_path_exists :: "pystr \<Rightarrow> call list \<Rightarrow> bool"
  os_makedirs :: "pystr \<Rightarrow> call list \<Rightarrow> exn + unit"
  tar_extractall :: "bytes \<Rightarrow> pystr \<Rightarrow> call list \<Rightarrow> exn + unit"

text \<open>
  A computation inside a \<open>try\<close> block: it returns a value or raises, and extends the
  record of calls. \<open>perform\<close> makes one call, \<open>then_do\<close> sequences (a raise skips the
  rest of the block), \<open>except_Exception\<close> is the handler
  \<open>except Exception as e: return f"<prefix>{str(e)}"\<close>.
\<close>

type_synonym 'a action = "call list \<Rightarrow> (exn + 'a) \<times> call list"

definition perform :: "call \<Rightarrow> (call list \<Rightarrow> exn + 'a) \<Rightarrow> 'a action" where
  "perform c answer t = (answer t, t @ [c])"

definition then_do :: "(exn + 'a) \<times> call list \<Rightarrow> ('a \<Rightarrow> 'b action) \<Rightarrow> (exn + 'b) \<times> call list" where
  "then_do r k = (case r of (Inl e, t) \<Rightarrow> (Inl e, t) | (Inr x, t) \<Rightarrow> k x t)"

definition except_Exception :: "pystr \<Rightarrow> (exn + pystr) \<times> call list \<Rightarrow> pystr \<times> call list" where
  "except_Exception prefix r =
    (case r of (Inl e, t) \<Rightarrow> (prefix @ str_exn e, t) | (Inr s, t) \<Rightarrow> (s, t))"

text \<open>An attribute of \<open>_client\<close>; on \<open>None\<close> the access raises \<open>AttributeError\<close>.\<close>

definition client_attr :: "client option \<Rightarrow> string \<Rightarrow> (client \<Rightarrow> 'a action) \<Rightarrow> 'a action" where
  "client_attr cl attr k t =
    (case cl of
       None \<Rightarrow>
         (Inl (Exn AttributeError
            ([39] @ ascii ''NoneType'' @ [39] @ ascii '' object has no attribute ''
             @ [39] @ ascii attr @ [39])), t)
     | Some E \<Rightarrow> k E t)"

section \<open>The container facade (\<open>tools/docker_tool.py\<close>)\<close>

definition msg_not_connected :: pystr where
  "msg_not_connected =
    [0x274C] @ ascii '' Docker ''
    @ [0x670D, 0x52A1, 0x672A, 0x8FDE, 0x63A5, 0xFF0C, 0x8BF7, 0x68C0, 0x67E5, 0x662F, 0x5426,
       0x6302, 0x8F7D, 0x4E86]
    @ ascii '' /var/run/docker.sock''"

definition check_client :: "client option \<Rightarrow> pystr" where
  "check_client cl = (case cl of None \<Rightarrow> msg_not_connected | Some E \<Rightarrow> [])"

subsection \<open>\<open>docker_list_containers\<close>\<close>

definition msg_no_containers :: pystr where
  "msg_no_containers = [0x1F4ED] @ ascii '' '' @ [0x6682, 0x65E0, 0x5BB9, 0x5668, 0x3002]"

definition msg_list_failed :: pystr where
  "msg_list_failed = [0x274C] @ ascii '' '' @ [0x67E5, 0x8BE2, 0x5931, 0x8D25] @ ascii '': ''"

definition list_header :: "nat \<Rightarrow> pystr" where
  "list_header n =
    [0x1F4E6] @ ascii '' **'' @ [0x5BB9, 0x5668, 0x5217, 0x8868] @ ascii '' ('' @ str_nat n
    @ ascii '')**:'' @ [10]"

text \<open>Line 42: the port text \<open>k->HostPort\<close> of every port with a binding, or \<open>-\<close>.\<close>

definition ports_text :: "container \<Rightarrow> pystr" where
  "ports_text c =
    (if c_ports c = [] then ascii ''-''
     else join (ascii '', '')
       (List.map_filter
          (\<lambda>(k, v). case v of
               Some (b # bs) \<Rightarrow> Some (k @ ascii ''->'' @ HostPort b)
             | _ \<Rightarrow> None)
          (c_ports c)))"

text \<open>\<open>c.image.tags\<close>: one request to the engine; \<open>c.image\<close> can be \<open>None\<close>.\<close>

definition image_tags :: "client \<Rightarrow> container \<Rightarrow> (pystr list) action" where
  "image_tags E c t =
    then_do (perform (Container_image c) (container_image E c) t)
      (\<lambda>img t'. case img of
           None \<Rightarrow>
             (Inl (Exn AttributeError
                ([39] @ ascii ''NoneType'' @ [39] @ ascii '' object has no attribute ''
                 @ [39] @ ascii ''tags'' @ [39])), t')
         | Some i \<Rightarrow> (Inr (i_tags i), t'))"

text \<open>\<open>c.image.tags[0] if c.image.tags else 'none'\<close>\<close>

definition first_tag_or_none :: "client \<Rightarrow> container \<Rightarrow> pystr action" where
  "first_tag_or_none E c t =
    then_do (image_tags E c t)
      (\<lambda>tags t1.
         if tags \<noteq> [] then
           then_do (image_tags E c t1)
             (\<lambda>tags' t2. case tags' of
                  [] \<Rightarrow> (Inl (Exn IndexError (ascii ''list index out of range'')), t2)
                | tag # _ \<Rightarrow> (Inr tag, t2))
         else (Inr (ascii ''none''), t1))"

text \<open>The loop of lines 40 to 44; \<open>ports\<close> is computed and not used.\<close>

fun list_loop :: "client \<Rightarrow> container list \<Rightarrow> pystr \<Rightarrow> pystr action" where
  "list_loop E [] result t = (Inr result, t)"
| "list_loop E (c # cs) result t =
    (let status_icon = (if c_status c = ascii ''running'' then [0x1F7E2] else [0x1F534]);
         ports = ports_text c
     in then_do (first_tag_or_none E c t)
          (\<lambda>img t'.
             list_loop E cs
               (result @ status_icon @ ascii '' **'' @ c_name c @ ascii ''**'' @ [10]
                @ ascii ''   ID: '' @ c_short_id c @ ascii '' | Stat: '' @ c_status c
                @ ascii '' | img: '' @ img @ [10]) t'))"

definition docker_list_containers :: "client option \<Rightarrow> bool \<Rightarrow> call list \<Rightarrow> pystr \<times> call list" where
  "docker_list_containers cl all t =
    (let err = check_client cl in
     if err \<noteq> [] then (err, t)
     else except_Exception msg_list_failed
       (client_attr cl ''containers''
          (\<lambda>E t0.
             then_do (perform (Containers_list all) (containers_list E all) t0)
               (\<lambda>containers t1.
                  if containers = [] then (Inr msg_no_containers, t1)
                  else list_loop E containers (list_header (length containers)) t1))
          t))"

subsection \<open>\<open>docker_container_action\<close>\<close>

definition msg_started :: "pystr \<Rightarrow> pystr" where
  "msg_started n =
    [0x25B6, 0xFE0F] @ ascii '' '' @ [0x5BB9, 0x5668] @ ascii '' `'' @ n @ ascii ''` ''
    @ [0x5DF2, 0x542F, 0x52A8, 0x3002]"

definition msg_stopped :: "pystr \<Rightarrow> pystr" where
  "msg_stopped n =
    ascii ''ww'' @ [0x23F9, 0xFE0F] @ ascii '' '' @ [0x5BB9, 0x5668] @ ascii '' `'' @ n
    @ ascii ''` '' @ [0x5DF2, 0x505C, 0x6B62, 0x3002]"

definition msg_restarted :: "pystr \<Rightarrow> pystr" where
  "msg_restarted n =
    [0x1F504] @ ascii '' '' @ [0x5BB9, 0x5668] @ ascii '' `'' @ n @ ascii ''` ''
    @ [0x5DF2, 0x91CD, 0x542F, 0x3002]"

definition msg_removed :: "pystr \<Rightarrow> pystr" where
  "msg_removed n =
    [0x1F5D1, 0xFE0F] @ ascii '' '' @ [0x5BB9, 0x5668] @ ascii '' `'' @ n @ ascii ''` ''
    @ [0x5DF2, 0x5220, 0x9664, 0x3002]"

definition msg_unknown_action :: pystr where
  "msg_unknown_action = [0x274C] @ ascii '' '' @ [0x672A, 0x77E5, 0x64CD, 0x4F5C] @ ascii '': ''"

definition msg_action_failed :: pystr where
  "msg_action_failed = [0x274C] @ ascii '' '' @ [0x64CD, 0x4F5C, 0x5931, 0x8D25] @ ascii '': ''"

text \<open>
  The body of the \<open>try\<close> block, after \<open>_client.containers\<close>: the container is resolved
  first, then the action is dispatched. In the \<open>remove\<close> branch the inner
  \<open>try: container.stop() except: pass\<close> discards the outcome of the stop.
\<close>

definition container_action_try :: "client \<Rightarrow> pystr \<Rightarrow> pystr \<Rightarrow> pystr action" where
  "container_action_try E container_name action t =
    then_do (perform (Containers_get container_name) (containers_get E container_name) t)
      (\<lambda>container t1.
         if action = ascii ''start'' then
           then_do (perform (Container_start container) (container_start E container) t1)
             (\<lambda>u t2. (Inr (msg_started (c_name container)), t2))
         else if action = ascii ''stop'' then
           then_do (perform (Container_stop container) (container_stop E container) t1)
             (\<lambda>u t2. (Inr (msg_stopped (c_name container)), t2))
         else if action = ascii ''restart'' then
           then_do (perform (Container_restart container) (container_restart E container) t1)
             (\<lambda>u t2. (Inr (msg_restarted (c_name container)), t2))
         else if action = ascii ''remove'' then
           (case perform (Container_stop container) (container_stop E container) t1 of
              (stop_outcome, t2) \<Rightarrow>
                then_do (perform (Container_remove container) (container_remove E container) t2)
                  (\<lambda>u t3. (Inr (msg_removed (c_name container)), t3)))
         else (Inr (msg_unknown_action @ action), t1))"

definition docker_container_action ::
  "client option \<Rightarrow> pystr \<Rightarrow> pystr \<Rightarrow> call list \<Rightarrow> pystr \<times> call list" where
  "docker_container_action cl container_name action t =
    (let err = check_client cl in
     if err \<noteq> [] then (err, t)
     else except_Exception msg_action_failed
       (client_attr cl ''containers''
          (\<lambda>E. container_action_try E container_name action) t))"

subsection \<open>\<open>docker_run_container\<close>\<close>

definition msg_ports_format :: pystr where
  "msg_ports_format =
    [0x274C] @ ascii '' ''
    @ [0x7AEF, 0x53E3, 0x683C, 0x5F0F, 0x9519, 0x8BEF, 0xFF0C, 0x8BF7, 0x4F7F, 0x7528]
    @ ascii '' JSON '' @ [0x683C, 0x5F0F, 0xFF0C, 0x4F8B, 0x5982] @ ascii '': {'' @ [39]
    @ ascii ''80/tcp'' @ [39] @ ascii '': 8080}''"

definition msg_run_ok :: "pystr \<Rightarrow> pystr \<Rightarrow> pystr" where
  "msg_run_ok n i =
    [0x2705] @ ascii '' ''
    @ [0x5BB9, 0x5668, 0x521B, 0x5EFA, 0x5E76, 0x542F, 0x52A8, 0x6210, 0x529F, 0xFF01, 10]
    @ ascii ''Name: '' @ n @ [10] @ ascii ''ID: '' @ i"

definition msg_run_failed :: pystr where
  "msg_run_failed =
    [0x274C] @ ascii '' '' @ [0x521B, 0x5EFA, 0x5BB9, 0x5668, 0x5931, 0x8D25] @ ascii '': ''"

text \<open>
  Lines 98 to 104. \<open>literal_eval\<close> stands for \<open>ast.literal_eval\<close> of the standard library:
  the value of a string that is a Python literal, an exception for every other string.
  The inner bare \<open>except\<close> turns every exception into the format message.
\<close>

definition parse_ports :: "(pystr \<Rightarrow> exn + pyval) \<Rightarrow> pystr option \<Rightarrow> pystr + pyval" where
  "parse_ports literal_eval ports =
    (case ports of
       None \<Rightarrow> Inr (PyDict [])
     | Some p \<Rightarrow>
         if p = [] then Inr (PyDict [])
         else (case literal_eval p of
                 Inl e \<Rightarrow> Inl msg_ports_format
               | Inr v \<Rightarrow> Inr v))"

definition run_container_try ::
  "(pystr \<Rightarrow> exn + pyval) \<Rightarrow> client option \<Rightarrow> pystr \<Rightarrow> pystr option \<Rightarrow> pystr option
    \<Rightarrow> pystr option \<Rightarrow> pystr action" where
  "run_container_try literal_eval cl image_name name ports command t =
    (case parse_ports literal_eval ports of
       Inl early_return \<Rightarrow> (Inr early_return, t)
     | Inr ports_dict \<Rightarrow>
         client_attr cl ''containers''
           (\<lambda>E t0.
              then_do
                (perform (Containers_run image_name name ports_dict command)
                   (containers_run E image_name name ports_dict command) t0)
                (\<lambda>container t1.
                   (Inr (msg_run_ok (c_name container) (c_short_id container)), t1)))
           t)"

definition docker_run_container ::
  "(pystr \<Rightarrow> exn + pyval) \<Rightarrow> client option \<Rightarrow> pystr \<Rightarrow> pystr option \<Rightarrow> pystr option
    \<Rightarrow> pystr option \<Rightarrow> call list \<Rightarrow> pystr \<times> call list" where
  "docker_run_container literal_eval cl image_name name ports command t =
    (let err = check_client cl in
     if err \<noteq> [] then (err, t)
     else except_Exception msg_run_failed
       (run_container_try literal_eval cl image_name name ports command t))"

subsection \<open>\<open>docker_inspect_container\<close>\<close>

record info =
  info_ID :: pystr
  info_Image :: pystr
  info_Status :: pystr
  info_Created :: pystr
  info_IP :: pystr
  info_MacAddress :: pystr
  info_Mounts :: "pystr list"
  info_Env :: "pystr list"

definition json_item :: "string \<Rightarrow> pystr \<Rightarrow> pystr" where
  "json_item key v = ascii ''  '' @ [34] @ ascii key @ [34] @ ascii '': '' @ v"

text \<open>\<open>json.dumps(info, indent=2)\<close> for the dictionary of lines 127 to 136.\<close>

definition json_dumps_info :: "info \<Rightarrow> pystr" where
  "json_dumps_info i =
    ascii ''{'' @ [10]
    @ join (ascii '','' @ [10])
        [json_item ''ID'' (json_str (info_ID i)),
         json_item ''Image'' (json_str (info_Image i)),
         json_item ''Status'' (json_str (info_Status i)),
         json_item ''Created'' (json_str (info_Created i)),
         json_item ''IP'' (json_str (info_IP i)),
         json_item ''MacAddress'' (json_str (info_MacAddress i)),
         json_item ''Mounts'' (json_str_list (info_Mounts i)),
         json_item ''Env'' (json_str_list (info_Env i))]
    @ [10] @ ascii ''}''"

definition msg_inspect :: "pystr \<Rightarrow> pystr \<Rightarrow> pystr" where
  "msg_inspect n js =
    [0x1F50D] @ ascii '' **'' @ [0x5BB9, 0x5668, 0x8BE6, 0x60C5] @ ascii '' ('' @ n
    @ ascii '')**:'' @ [10] @ ascii ''```json'' @ [10] @ js @ [10] @ ascii ''```''"

definition msg_inspect_failed :: pystr where
  "msg_inspect_failed =
    [0x274C] @ ascii '' '' @ [0x83B7, 0x53D6, 0x8BE6, 0x60C5, 0x5931, 0x8D25] @ ascii '': ''"

text \<open>The dictionary \<open>info\<close>; \<open>Env[:5]\<close> raises \<open>TypeError\<close> when \<open>Env\<close> is \<open>None\<close>.\<close>

definition inspect_info :: "container \<Rightarrow> exn + info" where
  "inspect_info c =
    (case attrs_Config_Env c of
       None \<Rightarrow>
         Inl (Exn TypeError ([39] @ ascii ''NoneType'' @ [39] @ ascii '' object is not subscriptable''))
     | Some env \<Rightarrow>
         Inr \<lparr>info_ID = c_short_id c,
              info_Image = attrs_Config_Image c,
              info_Status = c_status c,
              info_Created = attrs_Created c,
              info_IP = attrs_IPAddress c,
              info_MacAddress = attrs_MacAddress c,
              info_Mounts = map (\<lambda>m. Source m @ ascii '':'' @ Destination m) (attrs_Mounts c),
              info_Env = take 5 env\<rparr>)"

definition docker_inspect_container :: "client option \<Rightarrow> pystr \<Rightarrow> call list \<Rightarrow> pystr \<times> call list" where
  "docker_inspect_container cl container_name t =
    (let err = check_client cl in
     if err \<noteq> [] then (err, t)
     else except_Exception msg_inspect_failed
       (client_attr cl ''containers''
          (\<lambda>E t0.
             then_do (perform (Containers_get container_name) (containers_get E container_name) t0)
               (\<lambda>c t1.
                  then_do (inspect_info c, t1)
                    (\<lambda>i t2. (Inr (msg_inspect (c_name c) (json_dumps_info i)), t2))))
          t))"

subsection \<open>\<open>docker_get_logs\<close>\<close>

definition msg_logs :: "pystr \<Rightarrow> pystr \<Rightarrow> pystr" where
  "msg_logs n logs =
    [0x1F4DC] @ ascii '' **'' @ n @ ascii '' Logs**:'' @ [10] @ ascii ''```'' @ [10] @ logs
    @ [10] @ ascii ''```''"

definition msg_logs_failed :: pystr where
  "msg_logs_failed = [0x274C] @ ascii '' Log Error: ''"

definition docker_get_logs :: "client option \<Rightarrow> pystr \<Rightarrow> int \<Rightarrow> call list \<Rightarrow> pystr \<times> call list" where
  "docker_get_logs cl container_name lines t =
    (let err = check_client cl in
     if err \<noteq> [] then (err, t)
     else except_Exception msg_logs_failed
       (client_attr cl ''containers''
          (\<lambda>E t0.
             then_do (perform (Containers_get container_name) (containers_get E container_name) t0)
               (\<lambda>c t1.
                  then_do (perform (Container_logs c lines) (container_logs E c lines) t1)
                    (\<lambda>raw t2. (Inr (msg_logs (c_name c) (decode_utf8_ignore raw)), t2))))
          t))"

subsection \<open>Images\<close>

definition msg_no_images :: pystr where
  "msg_no_images = [0x1F4ED] @ ascii '' '' @ [0x65E0, 0x672C, 0x5730, 0x955C, 0x50CF, 0x3002]"

definition msg_images_head :: pystr where
  "msg_images_head =
    [0x1F4BF] @ ascii '' **'' @ [0x955C, 0x50CF, 0x5217, 0x8868] @ ascii ''**:'' @ [10]"

definition msg_images_failed :: pystr where
  "msg_images_failed = [0x274C] @ ascii '' Error: ''"

text \<open>
  The loop of lines 162 to 165. \<open>size_text\<close> stands for the floating-point expression
  \<open>round(img.attrs['Size'] / (1024*1024), 1)\<close> as the f-string prints it.
\<close>

fun images_loop :: "(int \<Rightarrow> pystr) \<Rightarrow> docker_image list \<Rightarrow> pystr \<Rightarrow> pystr" where
  "images_loop size_text [] res = res"
| "images_loop size_text (img # imgs) res =
    (let tags = (case i_tags img of [] \<Rightarrow> ascii ''<none>'' | tag # _ \<Rightarrow> tag);
         size = size_text (attrs_Size img)
     in images_loop size_text imgs
          (res @ ascii ''- '' @ tags @ ascii '' ('' @ size @ ascii ''MB)'' @ [10]))"

definition docker_list_images ::
  "(int \<Rightarrow> pystr) \<Rightarrow> client option \<Rightarrow> call list \<Rightarrow> pystr \<times> call list" where
  "docker_list_images size_text cl t =
    (let err = check_client cl in
     if err \<noteq> [] then (err, t)
     else except_Exception msg_images_failed
       (client_attr cl ''images''
          (\<lambda>E t0.
             then_do (perform Images_list (images_list E) t0)
               (\<lambda>images t1.
                  if images = [] then (Inr msg_no_images, t1)
                  else (Inr (images_loop size_text images msg_images_head), t1)))
          t))"

definition msg_pull_ok :: pystr where
  "msg_pull_ok = [0x2705] @ ascii '' '' @ [0x62C9, 0x53D6, 0x6210, 0x529F] @ ascii '': ''"

definition msg_pull_failed :: pystr where
  "msg_pull_failed = [0x274C] @ ascii '' '' @ [0x62C9, 0x53D6, 0x5931, 0x8D25] @ ascii '': ''"

definition docker_pull_image :: "client option \<Rightarrow> pystr \<Rightarrow> call list \<Rightarrow> pystr \<times> call list" where
  "docker_pull_image cl image_name t =
    (let err = check_client cl in
     if err \<noteq> [] then (err, t)
     else except_Exception msg_pull_failed
       (client_attr cl ''images''
          (\<lambda>E t0.
             then_do (perform (Images_pull image_name) (images_pull E image_name) t0)
               (\<lambda>img t1. case i_tags img of
                    [] \<Rightarrow> (Inl (Exn IndexError (ascii ''list index out of range'')), t1)
                  | tag # _ \<Rightarrow> (Inr (msg_pull_ok @ tag), t1)))
          t))"

definition msg_delete_ok :: pystr where
  "msg_delete_ok =
    [0x1F5D1, 0xFE0F] @ ascii '' '' @ [0x955C, 0x50CF, 0x5DF2, 0x5220, 0x9664] @ ascii '': ''"

definition msg_delete_failed :: pystr where
  "msg_delete_failed = [0x274C] @ ascii '' '' @ [0x5220, 0x9664, 0x5931, 0x8D25] @ ascii '': ''"

definition docker_delete_image ::
  "client option \<Rightarrow> pystr \<Rightarrow> bool \<Rightarrow> call list \<Rightarrow> pystr \<times> call list" where
  "docker_delete_image cl image_name force t =
    (let err = check_client cl in
     if err \<noteq> [] then (err, t)
     else except_Exception msg_delete_failed
       (client_attr cl ''images''
          (\<lambda>E t0.
             then_do
               (perform (Images_remove image_name force) (images_remove E image_name force) t0)
               (\<lambda>u t1. (Inr (msg_delete_ok @ image_name), t1)))
          t))"

definition msg_reset_ok :: "pystr \<Rightarrow> pystr" where
  "msg_reset_ok n =
    [0x1F504] @ ascii '' '' @ [0x955C, 0x50CF] @ ascii '' '' @ n @ ascii '' ''
    @ [0x5DF2, 0x91CD, 0x7F6E, 0x4E3A, 0x6700, 0x65B0, 0x7248, 0x3002]"

definition msg_reset_failed :: pystr where
  "msg_reset_failed = [0x274C] @ ascii '' '' @ [0x91CD, 0x7F6E, 0x5931, 0x8D25] @ ascii '': ''"

definition docker_reset_image :: "client option \<Rightarrow> pystr \<Rightarrow> call list \<Rightarrow> pystr \<times> call list" where
  "docker_reset_image cl image_name t =
    (let err = check_client cl in
     if err \<noteq> [] then (err, t)
     else except_Exception msg_reset_failed
       (client_attr cl ''images''
          (\<lambda>E t0.
             then_do (perform (Images_pull image_name) (images_pull E image_name) t0)
               (\<lambda>img t1.
                  (case perform Images_prune (images_prune E) t1 of
                     (prune_outcome, t2) \<Rightarrow> (Inr (msg_reset_ok image_name), t2))))
          t))"

subsection \<open>\<open>docker_copy_from_container\<close>\<close>

definition local_dir :: pystr where
  "local_dir = ascii ''/AstrBot/data/data_temp''"

definition msg_copy_not_found :: pystr where
  "msg_copy_not_found =
    [0x274C] @ ascii '' '' @ [0x5BB9, 0x5668, 0x5185, 0x672A, 0x627E, 0x5230, 0x6587, 0x4EF6]
    @ ascii '': ''"

definition msg_copy_ok :: pystr where
  "msg_copy_ok =
    [0x2705] @ ascii '' '' @ [0x6587, 0x4EF6, 0x5DF2, 0x63D0, 0x53D6, 0x5230, 0x672C, 0x5730]
    @ ascii '': ''"

definition msg_copy_failed :: pystr where
  "msg_copy_failed =
    [0x274C] @ ascii '' '' @ [0x63D0, 0x53D6, 0x6587, 0x4EF6, 0x5931, 0x8D25] @ ascii '': ''"

text \<open>\<open>os.path.basename\<close> and \<open>os.path.join\<close> of two components (POSIX).\<close>

definition basename :: "pystr \<Rightarrow> pystr" where
  "basename p = rev (takeWhile (\<lambda>c. c \<noteq> 47) (rev p))"

definition path_join :: "pystr \<Rightarrow> pystr \<Rightarrow> pystr" where
  "path_join a b =
    (if startswith b [47] then b
     else if a = [] \<or> endswith a [47] then a @ b
     else a @ [47] @ b)"

text \<open>
  The body of the \<open>try\<close> block, lines 213 to 240. Step 1 creates the staging directory when
  it does not exist; step 2 asks the engine for the archive and returns the not-found
  message on \<open>NotFound\<close>; step 3 reads the stream into memory and extracts it.
\<close>

definition copy_try :: "os_env \<Rightarrow> client \<Rightarrow> pystr \<Rightarrow> pystr \<Rightarrow> pystr action" where
  "copy_try os E container_name src_path t =
    then_do (perform (Containers_get container_name) (containers_get E container_name) t)
      (\<lambda>container t1.
         then_do
           (if \<not> os_path_exists os local_dir t1
            then perform (Os_makedirs local_dir) (os_makedirs os local_dir)
                   (t1 @ [Os_path_exists local_dir])
            else (Inr (), t1 @ [Os_path_exists local_dir]))
           (\<lambda>u t2.
              case perform (Container_get_archive container src_path)
                     (container_get_archive E container src_path) t2 of
                (Inl e, t3) \<Rightarrow>
                  if isinstance_NotFound e then (Inr (msg_copy_not_found @ src_path), t3)
                  else (Inl e, t3)
              | (Inr bits, t3) \<Rightarrow>
                  (case stream_error bits of
                     Some e \<Rightarrow> (Inl e, t3)
                   | None \<Rightarrow>
                       then_do
                         (perform (Tar_extractall (concat (chunks bits)) local_dir)
                            (tar_extractall os (concat (chunks bits)) local_dir) t3)
                         (\<lambda>u t4.
                            (Inr (msg_copy_ok @ path_join local_dir (basename src_path)), t4)))))"

definition docker_copy_from_container ::
  "os_env \<Rightarrow> client option \<Rightarrow> pystr \<Rightarrow> pystr \<Rightarrow> call list \<Rightarrow> pystr \<times> call list" where
  "docker_copy_from_container os cl container_name src_path t =
    (let err = check_client cl in
     if err \<noteq> [] then (err, t)
     else except_Exception msg_copy_failed
       (client_attr cl ''containers'' (\<lambda>E. copy_try os E container_name src_path) t))"

subsection \<open>\<open>docker_exec_run\<close> and \<open>docker_pip_install\<close>\<close>

definition msg_not_running :: "pystr \<Rightarrow> pystr" where
  "msg_not_running n =
    [0x274C] @ ascii '' '' @ [0x5BB9, 0x5668] @ ascii '' `'' @ n @ ascii ''` ''
    @ [0x672A, 0x8FD0, 0x884C, 0xFF0C, 0x65E0, 0x6CD5, 0x6267, 0x884C, 0x547D, 0x4EE4, 0x3002]"

definition msg_exec_failed :: pystr where
  "msg_exec_failed = [0x274C] @ ascii '' '' @ [0x6267, 0x884C, 0x5931, 0x8D25] @ ascii '': ''"

text \<open>\<open>x.decode('utf-8') if x else ""\<close>: \<open>None\<close> and the empty bytes are false.\<close>

definition decode_or_empty :: "bytes option \<Rightarrow> exn + pystr" where
  "decode_or_empty x =
    (case x of
       None \<Rightarrow> Inr []
     | Some b \<Rightarrow> if b = [] then Inr [] else decode_utf8 b)"

text \<open>Lines 275 to 284: the report, stripped of surrounding white space.\<close>

definition exec_report :: "int \<Rightarrow> pystr \<Rightarrow> pystr \<Rightarrow> pystr" where
  "exec_report exit_code stdout stderr =
    strip
      ([0x1F4BB] @ ascii '' **'' @ [0x6267, 0x884C, 0x7ED3, 0x679C] @ ascii '' (Exit Code: ''
       @ str_int exit_code @ ascii '')**:'' @ [10]
       @ (if stdout \<noteq> [] then ascii ''--- Stdout ---'' @ [10] @ stdout @ [10] else [])
       @ (if stderr \<noteq> [] then ascii ''--- Stderr ---'' @ [10] @ stderr @ [10] else [])
       @ (if stdout = [] \<and> stderr = [] then ascii ''('' @ [0x65E0, 0x8F93, 0x51FA] @ ascii '')''
          else []))"

definition exec_run_try :: "client \<Rightarrow> pystr \<Rightarrow> pystr \<Rightarrow> pystr option \<Rightarrow> pystr action" where
  "exec_run_try E container_name command workdir t =
    then_do (perform (Containers_get container_name) (containers_get E container_name) t)
      (\<lambda>container t1.
         if c_status container \<noteq> ascii ''running''
         then (Inr (msg_not_running (c_name container)), t1)
         else
           then_do
             (perform (Container_exec_run container command workdir)
                (container_exec_run E container command workdir) t1)
             (\<lambda>(exit_code, output) t2.
                then_do (decode_or_empty (fst output), t2)
                  (\<lambda>stdout t3.
                     then_do (decode_or_empty (snd output), t3)
                       (\<lambda>stderr t4. (Inr (exec_report exit_code stdout stderr), t4)))))"

definition docker_exec_run ::
  "client option \<Rightarrow> pystr \<Rightarrow> pystr \<Rightarrow> pystr option \<Rightarrow> call list \<Rightarrow> pystr \<times> call list" where
  "docker_exec_run cl container_name command workdir t =
    (let err = check_client cl in
     if err \<noteq> [] then (err, t)
     else except_Exception msg_exec_failed
       (client_attr cl ''containers''
          (\<lambda>E. exec_run_try E container_name command workdir) t))"

definition pip_cmd :: "pystr \<Rightarrow> pystr" where
  "pip_cmd packages =
    ascii ''pip install '' @ packages @ ascii '' ''
    @ ascii ''-i https://pypi.tuna.tsinghua.edu.cn/simple ''
    @ ascii ''--default-timeout=100 ''
    @ ascii ''--trusted-host pypi.tuna.tsinghua.edu.cn''"

definition docker_pip_install ::
  "client option \<Rightarrow> pystr \<Rightarrow> pystr \<Rightarrow> call list \<Rightarrow> pystr \<times> call list" where
  "docker_pip_install cl container_name packages t =
    (let err = check_client cl in
     if err \<noteq> [] then (err, t)
     else docker_exec_run cl container_name (pip_cmd packages) None t)"

section \<open>The tool loader (\<open>main.py\<close>)\<close>



















section \<open>Sample engines, file systems and tool directories\<close>

text \<open>
  Concrete surroundings on which the theorems below are instantiated: a container \<open>web1\<close>
  of the image \<open>nginx:latest\<close> with seven environment entries, publishing port 80 on host
  port 8080, in a given status.
\<close>

definition sample_container :: "pystr \<Rightarrow> container" where
  "sample_container st =
    \<lparr>c_name = ascii ''web1'',
     c_short_id = ascii ''3f2a9c1b7d4e'',
     c_status = st,
     c_ports = [(ascii ''80/tcp'', Some [\<lparr>HostIp = ascii ''0.0.0.0'', HostPort = ascii ''8080''\<rparr>])],
     attrs_Config_Image = ascii ''nginx:latest'',
     attrs_Created = ascii ''2024-05-01T10:00:00Z'',
     attrs_IPAddress = ascii ''172.17.0.2'',
     attrs_MacAddress = ascii ''02:42:ac:11:00:02'',
     attrs_Mounts = [\<lparr>Source = ascii ''/srv/www'', Destination = ascii ''/usr/share/nginx/html''\<rparr>],
     attrs_Config_Env =
       Some [ascii ''PATH=/usr/sbin:/usr/bin'', ascii ''NGINX_VERSION=1.25.3'',
             ascii ''NJS_VERSION=0.8.2'', ascii ''PKG_RELEASE=1'', ascii ''TZ=UTC'',
             ascii ''LANG=C.UTF-8'', ascii ''API_TOKEN=abc'']\<rparr>"

fun is_run_call :: "call \<Rightarrow> bool" where
  "is_run_call (Containers_run i n p c) = True"
| "is_run_call c = False"

text \<open>
  An engine that knows the container \<open>web1\<close> in status \<open>st\<close> and no other: \<open>stop\<close> fails on a
  container that is not running, the exec output and the logs hold the byte \<open>0xFF\<close>, no
  path exists inside the container, \<open>run\<close> starts \<open>web1\<close>, and \<open>list\<close> shows it once a
  \<open>run\<close> has been made.
\<close>

definition sample_engine :: "pystr \<Rightarrow> client" where
  "sample_engine st =
    \<lparr>containers_list =
       (\<lambda>all h. if list_ex is_run_call h then Inr [sample_container (ascii ''running'')]
                else Inr []),
     containers_get =
       (\<lambda>n h. if n = ascii ''web1'' then Inr (sample_container st)
              else Inl (Exn DockerNotFound (ascii ''No such container: '' @ n))),
     containers_run = (\<lambda>i n p c h. Inr (sample_container (ascii ''running''))),
     container_image =
       (\<lambda>c h. Inr (Some \<lparr>i_tags = [ascii ''nginx:latest''], attrs_Size = 187000000\<rparr>)),
     container_start = (\<lambda>c h. Inr ()),
     container_stop =
       (\<lambda>c h. if c_status c = ascii ''running'' then Inr ()
              else Inl (Exn DockerAPIError (ascii ''container is not running''))),
     container_restart = (\<lambda>c h. Inr ()),
     container_remove = (\<lambda>c h. Inr ()),
     container_logs = (\<lambda>c n h. Inr [0x68, 0xFF, 0x69]),
     container_get_archive =
       (\<lambda>c p h. Inl (Exn DockerNotFound (ascii ''Could not find the file '' @ p))),
     container_exec_run = (\<lambda>c cmd w h. Inr (0, Some [0x68, 0xFF], None)),
     images_list = (\<lambda>h. Inr []),
     images_pull = (\<lambda>n h. Inr \<lparr>i_tags = [n], attrs_Size = 187000000\<rparr>),
     images_remove = (\<lambda>n f h. Inr ()),
     images_prune = (\<lambda>h. Inr ())\<rparr>"

text \<open>A file system on which every operation succeeds; \<open>present\<close> says whether paths exist.\<close>

definition sample_os :: "bool \<Rightarrow> os_env" where
  "sample_os present =
    \<lparr>os_path_exists = (\<lambda>p h. present),
     os_makedirs = (\<lambda>p h. Inr ()),
     tar_extractall = (\<lambda>b p h. Inr ())\<rparr>"

text \<open>
  An extract of \<open>ast.literal_eval\<close>: its values at the literals \<open>[]\<close>, \<open>8080\<close> and
  \<open>{'80/tcp': 8080}\<close>, and the \<open>ValueError\<close> it raises at \<open>not-a-mapping\<close>. It is used at
  these four strings only.
\<close>

definition ports_literal :: pystr where
  "ports_literal = ascii ''{'' @ [39] @ ascii ''80/tcp'' @ [39] @ ascii '': 8080}''"

definition literal_eval_extract :: "pystr \<Rightarrow> exn + pyval" where
  "literal_eval_extract s =
    (if s = ascii ''[]'' then Inr (PyList [])
     else if s = ascii ''8080'' then Inr (PyInt 8080)
     else if s = ports_literal then Inr (PyDict [(PyStr (ascii ''80/tcp''), PyInt 8080)])
     else Inl (Exn ValueError (ascii ''malformed node or string'')))"






section \<open>Verification\<close>

subsection \<open>How the operations unfold once the handle exists\<close>

lemma msg_not_connected_nonempty: "msg_not_connected \<noteq> []"
  by (simp add: msg_not_connected_def)

lemma check_client_None: "check_client None = msg_not_connected"
  by (simp add: check_client_def)

lemma check_client_Some: "check_client (Some E) = []"
  by (simp add: check_client_def)

lemma ascii_inj: "(ascii a = ascii b) = (a = b)"
  by (simp add: ascii_def inj_on_def)

lemma ascii_nonempty: "(ascii a = []) = (a = [])"
  by (simp add: ascii_def)

lemma container_action_connected:
  "docker_container_action (Some E) container_name action t =
     except_Exception msg_action_failed (container_action_try E container_name action t)"
  by (simp add: docker_container_action_def check_client_Some client_attr_def)

lemma container_action_unknown:
  assumes "action \<noteq> ascii ''start''" "action \<noteq> ascii ''stop''"
    "action \<noteq> ascii ''restart''" "action \<noteq> ascii ''remove''"
  shows "docker_container_action (Some E) container_name action t =
    (case containers_get E container_name t of
       Inl e \<Rightarrow> msg_action_failed @ str_exn e
     | Inr container \<Rightarrow> msg_unknown_action @ action,
     t @ [Containers_get container_name])"
  using assms
  by (simp add: container_action_connected container_action_try_def then_do_def perform_def
      except_Exception_def split: sum.splits)

lemma container_action_remove:
  assumes "containers_get E container_name t = Inr c"
  shows "docker_container_action (Some E) container_name (ascii ''remove'') t =
    (case container_remove E c (t @ [Containers_get container_name, Container_stop c]) of
       Inl e \<Rightarrow> msg_action_failed @ str_exn e
     | Inr u \<Rightarrow> msg_removed (c_name c),
     t @ [Containers_get container_name, Container_stop c, Container_remove c])"
  using assms
  by (simp add: container_action_connected container_action_try_def then_do_def perform_def
      except_Exception_def ascii_inj split: sum.splits)

lemma run_container_connected:
  "docker_run_container literal_eval (Some E) image_name name ports command t =
     (case parse_ports literal_eval ports of
        Inl early_return \<Rightarrow> (early_return, t)
      | Inr ports_dict \<Rightarrow>
          (case containers_run E image_name name ports_dict command t of
             Inl e \<Rightarrow> msg_run_failed @ str_exn e
           | Inr container \<Rightarrow> msg_run_ok (c_name container) (c_short_id container),
           t @ [Containers_run image_name name ports_dict command]))"
  by (simp add: docker_run_container_def check_client_Some run_container_try_def
      client_attr_def then_do_def perform_def except_Exception_def split: sum.splits)

lemma exec_run_connected:
  "docker_exec_run (Some E) container_name command workdir t =
     except_Exception msg_exec_failed (exec_run_try E container_name command workdir t)"
  by (simp add: docker_exec_run_def check_client_Some client_attr_def)

lemma copy_connected:
  "docker_copy_from_container os (Some E) container_name src_path t =
     except_Exception msg_copy_failed (copy_try os E container_name src_path t)"
  by (simp add: docker_copy_from_container_def check_client_Some client_attr_def)

lemma copy_archive_not_found:
  assumes "containers_get E container_name t = Inr c"
    and "os_path_exists os local_dir (t @ [Containers_get container_name])
         \<or> os_makedirs os local_dir
              (t @ [Containers_get container_name, Os_path_exists local_dir]) = Inr ()"
    and "container_get_archive E c src_path
           (t @ [Containers_get container_name, Os_path_exists local_dir]
              @ (if os_path_exists os local_dir (t @ [Containers_get container_name]) then []
                 else [Os_makedirs local_dir])) = Inl e"
    and "isinstance_NotFound e"
  shows "docker_copy_from_container os (Some E) container_name src_path t =
    (msg_copy_not_found @ src_path,
     t @ [Containers_get container_name, Os_path_exists local_dir]
       @ (if os_path_exists os local_dir (t @ [Containers_get container_name]) then []
          else [Os_makedirs local_dir])
       @ [Container_get_archive c src_path])"
  using assms
  by (auto simp add: copy_connected copy_try_def then_do_def perform_def except_Exception_def
      split: sum.splits prod.splits)











lemma exec_run_not_running:
  assumes "containers_get E container_name t = Inr c"
    and "c_status c \<noteq> ascii ''running''"
  shows "docker_exec_run (Some E) container_name command workdir t
              = (msg_not_running (c_name c), t @ [Containers_get container_name])"
  using assms
  by (simp add: exec_run_connected exec_run_try_def then_do_def perform_def
      except_Exception_def)

lemma exec_run_running_trace:
  assumes "containers_get E container_name t = Inr c"
    and "c_status c = ascii ''running''"
  shows "snd (docker_exec_run (Some E) container_name command workdir t)
              = t @ [Containers_get container_name, Container_exec_run c command workdir]"
proof (cases "container_exec_run E c command workdir (t @ [Containers_get container_name])")
  case (Inl e)
  with assms show ?thesis
    by (simp add: exec_run_connected exec_run_try_def then_do_def perform_def
        except_Exception_def)
next
  case (Inr r)
  obtain exit_code out err where r: "r = (exit_code, out, err)"
    by (cases r) auto
  show ?thesis
  proof (cases "decode_or_empty out")
    case (Inl e)
    with assms Inr r show ?thesis
      by (simp add: exec_run_connected exec_run_try_def then_do_def perform_def
          except_Exception_def)
  next
    case out_ok: (Inr s)
    show ?thesis
    proof (cases "decode_or_empty err")
      case (Inl e)
      with assms Inr r out_ok show ?thesis
        by (simp add: exec_run_connected exec_run_try_def then_do_def perform_def
            except_Exception_def)
    next
      case err_ok: (Inr s')
      with assms Inr r out_ok show ?thesis
        by (simp add: exec_run_connected exec_run_try_def then_do_def perform_def
            except_Exception_def)
    qed
  qed
qed

subsection \<open>The text of the inspect report and of the listing\<close>












lemma first_tag_fixed_image:
  assumes "\<forall>h. container_image E c h = Inr (Some i)"
  shows "\<exists>t'. first_tag_or_none E c t
           = (Inr (case i_tags i of [] \<Rightarrow> ascii ''none'' | tag # tags \<Rightarrow> tag), t')"
  using assms
  by (cases "i_tags i")
     (simp_all add: first_tag_or_none_def image_tags_def then_do_def perform_def)

lemma list_loop_fixed_images:
  assumes "\<forall>c \<in> set cs. \<forall>h. container_image E c h = Inr (Some (img c))"
  shows "fst (list_loop E cs result t) =
    Inr (result @ concat (map (\<lambda>c.
        (if c_status c = ascii ''running'' then [0x1F7E2] else [0x1F534])
        @ ascii '' **'' @ c_name c @ ascii ''**'' @ [10]
        @ ascii ''   ID: '' @ c_short_id c @ ascii '' | Stat: '' @ c_status c
        @ ascii '' | img: ''
        @ (case i_tags (img c) of [] \<Rightarrow> ascii ''none'' | tag # tags \<Rightarrow> tag) @ [10]) cs))"
  using assms
proof (induction cs arbitrary: result t)
  case Nil
  show ?case by simp
next
  case (Cons c cs)
  from Cons.prems have "\<forall>h. container_image E c h = Inr (Some (img c))" by simp
  then obtain t' where ft: "first_tag_or_none E c t
      = (Inr (case i_tags (img c) of [] \<Rightarrow> ascii ''none'' | tag # tags \<Rightarrow> tag), t')"
    using first_tag_fixed_image by blast
  from Cons.prems have rest: "\<forall>c \<in> set cs. \<forall>h. container_image E c h = Inr (Some (img c))"
    by simp
  show ?case
    by (simp add: ft then_do_def Cons.IH [OF rest])
qed

subsection \<open>The sample surroundings\<close>

lemma sample_get_web1:
  "containers_get (sample_engine st) (ascii ''web1'') t = Inr (sample_container st)"
  by (simp add: sample_engine_def)

lemma sample_get_other:
  "n \<noteq> ascii ''web1'' \<Longrightarrow> containers_get (sample_engine st) n t
     = Inl (Exn DockerNotFound (ascii ''No such container: '' @ n))"
  by (simp add: sample_engine_def)

lemma sample_status: "c_status (sample_container st) = st"
  by (simp add: sample_container_def)

lemma sample_name: "c_name (sample_container st) = ascii ''web1''"
  by (simp add: sample_container_def)

lemma sample_short_id: "c_short_id (sample_container st) = ascii ''3f2a9c1b7d4e''"
  by (simp add: sample_container_def)

lemma sample_run:
  "containers_run (sample_engine st) i n p c h = Inr (sample_container (ascii ''running''))"
  by (simp add: sample_engine_def)

lemma sample_archive:
  "container_get_archive (sample_engine st) c p h
     = Inl (Exn DockerNotFound (ascii ''Could not find the file '' @ p))"
  by (simp add: sample_engine_def)

lemma sample_os_exists: "os_path_exists (sample_os present) p h = present"
  by (simp add: sample_os_def)

lemma sample_os_makedirs: "os_makedirs (sample_os present) p h = Inr ()"
  by (simp add: sample_os_def)

lemma sample_list_after_run:
  "list_ex is_run_call h \<Longrightarrow>
   containers_list (sample_engine st) all h = Inr [sample_container (ascii ''running'')]"
  by (simp add: sample_engine_def)

lemma sample_image:
  "container_image (sample_engine st) c h
     = Inr (Some \<lparr>i_tags = [ascii ''nginx:latest''], attrs_Size = 187000000\<rparr>)"
  by (simp add: sample_engine_def)

lemma sample_first_tag:
  "first_tag_or_none (sample_engine st) c t
     = (Inr (ascii ''nginx:latest''), t @ [Container_image c, Container_image c])"
  by (simp add: first_tag_or_none_def image_tags_def then_do_def perform_def sample_image
      ascii_nonempty)

lemma sample_ports_text: "ports_text (sample_container st) = ascii ''80/tcp->8080''"
  by (simp add: ports_text_def sample_container_def List.map_filter_simps ascii_def)

lemma sample_listing:
  "list_header 1 @ [0x1F7E2] @ ascii '' **'' @ ascii ''web1'' @ ascii ''**'' @ [10]
     @ ascii ''   ID: '' @ ascii ''3f2a9c1b7d4e'' @ ascii '' | Stat: '' @ ascii ''running''
     @ ascii '' | img: '' @ ascii ''nginx:latest'' @ [10]
   = [0x1F4E6] @ ascii '' **'' @ [0x5BB9, 0x5668, 0x5217, 0x8868] @ ascii '' (1)**:'' @ [10]
     @ [0x1F7E2] @ ascii '' **web1**'' @ [10]
     @ ascii ''   ID: 3f2a9c1b7d4e | Stat: running | img: nginx:latest'' @ [10]"
  by (simp add: list_header_def str_nat.simps ascii_def)

lemma sample_listing_no_port:
  "\<not> py_in (ascii ''8080'')
      ([0x1F4E6] @ ascii '' **'' @ [0x5BB9, 0x5668, 0x5217, 0x8868] @ ascii '' (1)**:'' @ [10]
       @ [0x1F7E2] @ ascii '' **web1**'' @ [10]
       @ ascii ''   ID: 3f2a9c1b7d4e | Stat: running | img: nginx:latest'' @ [10])"
  by (simp add: ascii_def startswith_def)


subsection \<open>The loader, file by file\<close>




















subsection \<open>The claims\<close>

text \<open>
  Claim C1. When the engine handle is absent (\<open>_client\<close> is \<open>None\<close>), every operation
  of the facade (list, action, run, inspect, logs, the four image operations, copy, exec
  and install) returns the same fixed not-connected text and leaves the record of calls as
  it found it: no call reaches the engine or the file system.
\<close>

theorem not_connected_short_circuit:
  "docker_list_containers None all t = (msg_not_connected, t)
   \<and> docker_container_action None container_name action t = (msg_not_connected, t)
   \<and> docker_run_container literal_eval None image_name name ports command t
       = (msg_not_connected, t)
   \<and> docker_inspect_container None container_name t = (msg_not_connected, t)
   \<and> docker_get_logs None container_name lines t = (msg_not_connected, t)
   \<and> docker_list_images size_text None t = (msg_not_connected, t)
   \<and> docker_pull_image None image_name t = (msg_not_connected, t)
   \<and> docker_delete_image None image_name force t = (msg_not_connected, t)
   \<and> docker_reset_image None image_name t = (msg_not_connected, t)
   \<and> docker_copy_from_container os None container_name src_path t = (msg_not_connected, t)
   \<and> docker_exec_run None container_name cmd workdir t = (msg_not_connected, t)
   \<and> docker_pip_install None container_name packages t = (msg_not_connected, t)"
  by (simp add: check_client_None msg_not_connected_nonempty
      docker_list_containers_def docker_container_action_def docker_run_container_def
      docker_inspect_container_def docker_get_logs_def docker_list_images_def
      docker_pull_image_def docker_delete_image_def docker_reset_image_def
      docker_copy_from_container_def docker_exec_run_def docker_pip_install_def)




text \<open>
  Claim C3, as the facade implements it. For a non-empty \<open>ports\<close> string, the format
  message is returned, before any call, exactly when \<open>ast.literal_eval\<close> raises on the
  string; when \<open>literal_eval\<close> returns a value, of whatever shape, that value is handed
  to the engine's \<open>run\<close>. The string is never used in any other way.
\<close>

theorem run_container_ports:
  assumes "p \<noteq> []"
  shows "(\<forall>e. literal_eval p = Inl e \<longrightarrow>
            docker_run_container literal_eval (Some E) image_name name (Some p) command t
              = (msg_ports_format, t))
       \<and> (\<forall>v. literal_eval p = Inr v \<longrightarrow>
            snd (docker_run_container literal_eval (Some E) image_name name (Some p) command t)
              = t @ [Containers_run image_name name v command])"
  using assms
  by (simp add: run_container_connected parse_ports_def)

text \<open>The string \<open>not-a-mapping\<close> is refused before any call.\<close>

theorem run_container_ports_witness:
  "ascii ''not-a-mapping'' \<noteq> []
   \<and> literal_eval_extract (ascii ''not-a-mapping'')
       = Inl (Exn ValueError (ascii ''malformed node or string''))
   \<and> docker_run_container literal_eval_extract (Some (sample_engine (ascii ''created'')))
        (ascii ''nginx:latest'') None (Some (ascii ''not-a-mapping'')) None []
       = (msg_ports_format, [])"
proof -
  have a: "ascii ''not-a-mapping'' \<noteq> []" by (simp add: ascii_nonempty)
  have l: "literal_eval_extract (ascii ''not-a-mapping'')
       = Inl (Exn ValueError (ascii ''malformed node or string''))"
    by (simp add: literal_eval_extract_def ports_literal_def ascii_def)
  show ?thesis
    using a l run_container_ports [OF a, of literal_eval_extract
        "sample_engine (ascii ''created'')" "ascii ''nginx:latest''" None None "[]"]
    by simp
qed

text \<open>
  The claim as first stated fails at the string \<open>[]\<close>: it is not a mapping from ports to
  host ports, yet it is a Python literal, so \<open>run\<close> is called with the empty list and the
  container is created.
\<close>

theorem run_container_counterexample:
  "ascii ''[]'' \<noteq> []
   \<and> literal_eval_extract (ascii ''[]'') = Inr (PyList [])
   \<and> docker_run_container literal_eval_extract (Some (sample_engine (ascii ''created'')))
        (ascii ''nginx:latest'') None (Some (ascii ''[]'')) None []
       = (msg_run_ok (ascii ''web1'') (ascii ''3f2a9c1b7d4e''),
          [Containers_run (ascii ''nginx:latest'') None (PyList []) None])
   \<and> msg_run_ok (ascii ''web1'') (ascii ''3f2a9c1b7d4e'') \<noteq> msg_ports_format"
proof -
  have a: "ascii ''[]'' \<noteq> []" by (simp add: ascii_nonempty)
  have l: "literal_eval_extract (ascii ''[]'') = Inr (PyList [])"
    by (simp add: literal_eval_extract_def)
  have r: "docker_run_container literal_eval_extract (Some (sample_engine (ascii ''created'')))
        (ascii ''nginx:latest'') None (Some (ascii ''[]'')) None []
       = (msg_run_ok (ascii ''web1'') (ascii ''3f2a9c1b7d4e''),
          [Containers_run (ascii ''nginx:latest'') None (PyList []) None])"
    by (simp add: run_container_connected parse_ports_def a l sample_run sample_name
        sample_short_id)
  have n: "msg_run_ok (ascii ''web1'') (ascii ''3f2a9c1b7d4e'') \<noteq> msg_ports_format"
    by (simp add: msg_run_ok_def msg_ports_format_def)
  show ?thesis using a l r n by simp
qed

text \<open>
  Claim C4, as the facade implements it. For an action outside \<open>start\<close>, \<open>stop\<close>,
  \<open>restart\<close>, \<open>remove\<close>, the container is still resolved first: exactly one call,
  \<open>containers.get\<close>, is made. When it succeeds the unknown-operation text naming the action
  is returned; when it raises, the operation-failed text with the engine's error is
  returned instead. No start, stop, restart or remove call is made.
\<close>

theorem unknown_action_after_resolution:
  assumes "action \<notin> {ascii ''start'', ascii ''stop'', ascii ''restart'', ascii ''remove''}"
  shows "docker_container_action (Some E) container_name action t =
    (case containers_get E container_name t of
       Inl e \<Rightarrow> msg_action_failed @ str_exn e
     | Inr container \<Rightarrow> msg_unknown_action @ action,
     t @ [Containers_get container_name])"
  using assms by (simp add: container_action_unknown)

text \<open>The action \<open>pause\<close> on the existing container \<open>web1\<close>.\<close>

theorem unknown_action_after_resolution_witness:
  "ascii ''pause'' \<notin> {ascii ''start'', ascii ''stop'', ascii ''restart'', ascii ''remove''}
   \<and> docker_container_action (Some (sample_engine (ascii ''running''))) (ascii ''web1'')
        (ascii ''pause'') []
       = (msg_unknown_action @ ascii ''pause'', [Containers_get (ascii ''web1'')])"
proof -
  have a: "ascii ''pause'' \<notin> {ascii ''start'', ascii ''stop'', ascii ''restart'', ascii ''remove''}"
    by (simp add: ascii_inj)
  show ?thesis
    using a unknown_action_after_resolution
      [OF a, of "sample_engine (ascii ''running'')" "ascii ''web1''" "[]"]
    by (simp add: sample_get_web1)
qed

text \<open>
  The claim as first stated fails for \<open>pause\<close> on a name the engine does not know: the
  engine is asked, and the answer is the operation-failed text, not the unknown-operation
  text.
\<close>

theorem unknown_action_counterexample:
  "ascii ''pause'' \<noteq> ascii ''start'' \<and> ascii ''pause'' \<noteq> ascii ''stop''
   \<and> ascii ''pause'' \<noteq> ascii ''restart'' \<and> ascii ''pause'' \<noteq> ascii ''remove''
   \<and> docker_container_action (Some (sample_engine (ascii ''running''))) (ascii ''ghost'')
        (ascii ''pause'') []
       = (msg_action_failed @ ascii ''No such container: ghost'',
          [Containers_get (ascii ''ghost'')])
   \<and> is_engine_call (Containers_get (ascii ''ghost''))
   \<and> msg_action_failed @ ascii ''No such container: ghost''
       \<noteq> msg_unknown_action @ ascii ''pause''"
proof -
  have a: "ascii ''pause'' \<noteq> ascii ''start''" "ascii ''pause'' \<noteq> ascii ''stop''"
    "ascii ''pause'' \<noteq> ascii ''restart''" "ascii ''pause'' \<noteq> ascii ''remove''"
    by (simp_all add: ascii_inj)
  have g: "containers_get (sample_engine (ascii ''running'')) (ascii ''ghost'') []
      = Inl (Exn DockerNotFound (ascii ''No such container: '' @ ascii ''ghost''))"
    by (rule sample_get_other) (simp add: ascii_inj)
  have r: "docker_container_action (Some (sample_engine (ascii ''running''))) (ascii ''ghost'')
        (ascii ''pause'') []
       = (msg_action_failed @ ascii ''No such container: ghost'',
          [Containers_get (ascii ''ghost'')])"
    by (simp add: container_action_unknown [OF a] g) (simp add: ascii_def)
  have n: "msg_action_failed @ ascii ''No such container: ghost''
       \<noteq> msg_unknown_action @ ascii ''pause''"
    by (simp add: msg_action_failed_def msg_unknown_action_def ascii_def)
  show ?thesis using a r n by simp
qed

text \<open>
  Claim C5. Once the container is resolved, \<open>remove\<close> calls \<open>stop\<close>, then \<open>remove\<close>,
  in this order and whatever \<open>stop\<close> answers: the outcome of the stop does not appear in
  the result. The text is the success text when the engine's \<open>remove\<close> returns, and the
  operation-failed text with the engine's error when it raises.
\<close>

theorem remove_stops_then_deletes:
  assumes "containers_get E container_name t = Inr c"
  shows "docker_container_action (Some E) container_name (ascii ''remove'') t =
    (case container_remove E c (t @ [Containers_get container_name, Container_stop c]) of
       Inl e \<Rightarrow> msg_action_failed @ str_exn e
     | Inr u \<Rightarrow> msg_removed (c_name c),
     t @ [Containers_get container_name, Container_stop c, Container_remove c])"
  using assms by (rule container_action_remove)

text \<open>
  A container that is already stopped, on an engine whose \<open>stop\<close> raises for it: the
  removal succeeds.
\<close>

theorem remove_stops_then_deletes_witness:
  "containers_get (sample_engine (ascii ''exited'')) (ascii ''web1'') []
     = Inr (sample_container (ascii ''exited''))
   \<and> container_stop (sample_engine (ascii ''exited'')) (sample_container (ascii ''exited''))
        [Containers_get (ascii ''web1'')]
     = Inl (Exn DockerAPIError (ascii ''container is not running''))
   \<and> docker_container_action (Some (sample_engine (ascii ''exited''))) (ascii ''web1'')
        (ascii ''remove'') []
     = (msg_removed (ascii ''web1''),
        [Containers_get (ascii ''web1''), Container_stop (sample_container (ascii ''exited'')),
         Container_remove (sample_container (ascii ''exited''))])"
proof -
  have g: "containers_get (sample_engine (ascii ''exited'')) (ascii ''web1'') []
     = Inr (sample_container (ascii ''exited''))"
    by (rule sample_get_web1)
  have s: "container_stop (sample_engine (ascii ''exited'')) (sample_container (ascii ''exited''))
        [Containers_get (ascii ''web1'')]
     = Inl (Exn DockerAPIError (ascii ''container is not running''))"
    by (simp add: sample_engine_def sample_status ascii_inj)
  have r: "container_remove (sample_engine (ascii ''exited'')) c h = Inr ()" for c h
    by (simp add: sample_engine_def)
  show ?thesis
    using g s remove_stops_then_deletes [OF g]
    by (simp add: r sample_name)
qed

text \<open>
  Claim C6. Once the container is resolved, a status other than \<open>running\<close> gives the
  not-running text and no call after the resolution; with the status \<open>running\<close> the
  exec call is the one call that follows. An exec call is made only for a running
  container.
\<close>

theorem exec_requires_running:
  assumes "containers_get E container_name t = Inr c"
  shows "(c_status c \<noteq> ascii ''running'' \<longrightarrow>
            docker_exec_run (Some E) container_name command workdir t
              = (msg_not_running (c_name c), t @ [Containers_get container_name]))
       \<and> (c_status c = ascii ''running'' \<longrightarrow>
            snd (docker_exec_run (Some E) container_name command workdir t)
              = t @ [Containers_get container_name, Container_exec_run c command workdir])
       \<and> (list_ex is_exec_call
             (drop (length t) (snd (docker_exec_run (Some E) container_name command workdir t)))
           \<longrightarrow> c_status c = ascii ''running'')"
proof (cases "c_status c = ascii ''running''")
  case True
  then show ?thesis
    using exec_run_running_trace [OF assms True] by simp
next
  case False
  then show ?thesis
    using exec_run_not_running [OF assms False] by simp
qed

text \<open>\<open>echo hi\<close> in the stopped container \<open>web1\<close>.\<close>

theorem exec_requires_running_witness:
  "containers_get (sample_engine (ascii ''exited'')) (ascii ''web1'') []
     = Inr (sample_container (ascii ''exited''))
   \<and> c_status (sample_container (ascii ''exited'')) \<noteq> ascii ''running''
   \<and> docker_exec_run (Some (sample_engine (ascii ''exited''))) (ascii ''web1'')
        (ascii ''echo hi'') None []
     = (msg_not_running (ascii ''web1''), [Containers_get (ascii ''web1'')])
   \<and> \<not> list_ex is_exec_call [Containers_get (ascii ''web1'')]"
proof -
  have g: "containers_get (sample_engine (ascii ''exited'')) (ascii ''web1'') []
     = Inr (sample_container (ascii ''exited''))"
    by (rule sample_get_web1)
  have n: "c_status (sample_container (ascii ''exited'')) \<noteq> ascii ''running''"
    by (simp add: sample_status ascii_inj)
  have "docker_exec_run (Some (sample_engine (ascii ''exited''))) (ascii ''web1'')
        (ascii ''echo hi'') None []
     = (msg_not_running (c_name (sample_container (ascii ''exited''))),
        [] @ [Containers_get (ascii ''web1'')])"
    using exec_requires_running [OF g, of "ascii ''echo hi''" None] n by blast
  then show ?thesis
    using g n by (simp add: sample_name)
qed

text \<open>
  Claim C7, as the facade implements it. When the container resolves, the staging
  directory exists or can be created, and the engine answers \<open>get_archive\<close> with
  \<open>NotFound\<close>, the not-found text with the path is returned and nothing is extracted. The
  only write to the file system is the creation of the staging directory, which step 1
  makes before asking the engine, when the directory does not exist yet.
\<close>

theorem copy_not_found_extracts_nothing:
  assumes "containers_get E container_name t = Inr c"
    and "os_path_exists os local_dir (t @ [Containers_get container_name])
         \<or> os_makedirs os local_dir
              (t @ [Containers_get container_name, Os_path_exists local_dir]) = Inr ()"
    and "container_get_archive E c src_path
           (t @ [Containers_get container_name, Os_path_exists local_dir]
              @ (if os_path_exists os local_dir (t @ [Containers_get container_name]) then []
                 else [Os_makedirs local_dir])) = Inl e"
    and "isinstance_NotFound e"
  shows "docker_copy_from_container os (Some E) container_name src_path t =
      (msg_copy_not_found @ src_path,
       t @ [Containers_get container_name, Os_path_exists local_dir]
         @ (if os_path_exists os local_dir (t @ [Containers_get container_name]) then []
            else [Os_makedirs local_dir])
         @ [Container_get_archive c src_path])
    \<and> filter is_fs_write
         (drop (length t)
            (snd (docker_copy_from_container os (Some E) container_name src_path t)))
       = (if os_path_exists os local_dir (t @ [Containers_get container_name]) then []
          else [Os_makedirs local_dir])"
  using copy_archive_not_found [OF assms] by simp

text \<open>With the staging directory in place, a missing path writes nothing.\<close>

theorem copy_not_found_extracts_nothing_witness:
  "containers_get (sample_engine (ascii ''running'')) (ascii ''web1'') []
     = Inr (sample_container (ascii ''running''))
   \<and> os_path_exists (sample_os True) local_dir [Containers_get (ascii ''web1'')]
   \<and> isinstance_NotFound
        (Exn DockerNotFound (ascii ''Could not find the file '' @ ascii ''/no/such/file''))
   \<and> docker_copy_from_container (sample_os True) (Some (sample_engine (ascii ''running'')))
        (ascii ''web1'') (ascii ''/no/such/file'') []
     = (msg_copy_not_found @ ascii ''/no/such/file'',
        [Containers_get (ascii ''web1''), Os_path_exists local_dir,
         Container_get_archive (sample_container (ascii ''running'')) (ascii ''/no/such/file'')])
   \<and> filter is_fs_write
        (snd (docker_copy_from_container (sample_os True)
                (Some (sample_engine (ascii ''running''))) (ascii ''web1'')
                (ascii ''/no/such/file'') []))
     = []"
proof -
  have g: "containers_get (sample_engine (ascii ''running'')) (ascii ''web1'') []
     = Inr (sample_container (ascii ''running''))"
    by (rule sample_get_web1)
  have x: "os_path_exists (sample_os True) local_dir ([] @ [Containers_get (ascii ''web1'')])
         \<or> os_makedirs (sample_os True) local_dir
              ([] @ [Containers_get (ascii ''web1''), Os_path_exists local_dir]) = Inr ()"
    by (simp add: sample_os_exists)
  have a: "container_get_archive (sample_engine (ascii ''running''))
           (sample_container (ascii ''running'')) (ascii ''/no/such/file'')
           ([] @ [Containers_get (ascii ''web1''), Os_path_exists local_dir]
              @ (if os_path_exists (sample_os True) local_dir
                      ([] @ [Containers_get (ascii ''web1'')]) then []
                 else [Os_makedirs local_dir]))
         = Inl (Exn DockerNotFound (ascii ''Could not find the file '' @ ascii ''/no/such/file''))"
    by (simp add: sample_archive)
  have nf: "isinstance_NotFound
        (Exn DockerNotFound (ascii ''Could not find the file '' @ ascii ''/no/such/file''))"
    by simp
  show ?thesis
    using g nf copy_not_found_extracts_nothing [OF g x a nf]
    by (simp add: sample_os_exists)
qed

text \<open>
  The claim as first stated fails when the staging directory does not exist: the
  not-found text is returned, and the directory has been created.
\<close>

theorem copy_not_found_counterexample:
  "container_get_archive (sample_engine (ascii ''running'')) (sample_container (ascii ''running''))
      (ascii ''/no/such/file'')
      [Containers_get (ascii ''web1''), Os_path_exists local_dir, Os_makedirs local_dir]
     = Inl (Exn DockerNotFound (ascii ''Could not find the file '' @ ascii ''/no/such/file''))
   \<and> docker_copy_from_container (sample_os False) (Some (sample_engine (ascii ''running'')))
        (ascii ''web1'') (ascii ''/no/such/file'') []
     = (msg_copy_not_found @ ascii ''/no/such/file'',
        [Containers_get (ascii ''web1''), Os_path_exists local_dir, Os_makedirs local_dir,
         Container_get_archive (sample_container (ascii ''running'')) (ascii ''/no/such/file'')])
   \<and> is_fs_write (Os_makedirs local_dir)"
proof -
  have g: "containers_get (sample_engine (ascii ''running'')) (ascii ''web1'') []
     = Inr (sample_container (ascii ''running''))"
    by (rule sample_get_web1)
  have "docker_copy_from_container (sample_os False) (Some (sample_engine (ascii ''running'')))
        (ascii ''web1'') (ascii ''/no/such/file'') []
     = (msg_copy_not_found @ ascii ''/no/such/file'',
        [Containers_get (ascii ''web1''), Os_path_exists local_dir, Os_makedirs local_dir,
         Container_get_archive (sample_container (ascii ''running'')) (ascii ''/no/such/file'')])"
    by (simp add: copy_connected copy_try_def then_do_def perform_def except_Exception_def g
        sample_os_exists sample_os_makedirs sample_archive)
  then show ?thesis by (simp add: sample_archive)
qed



text \<open>
  Claim C9, as the facade implements it. The listing has the header with the number of
  containers and, for every container, the status icon, the name, the short id, the
  status and the first image tag (\<open>none\<close> without a tag), on an engine that answers every
  image lookup: the entry is cut down to these fields (line 43), and the port text that
  line 42 computes is not part of it. After the run of \<open>nginx:latest\<close> as \<open>web1\<close> the
  listing therefore shows one entry \<open>web1\<close> with status \<open>running\<close>, and no port mapping.
\<close>

theorem list_entries_without_ports:
  assumes "containers_list E all t = Inr cs"
    and "cs \<noteq> []"
    and "\<forall>c \<in> set cs. \<forall>h. container_image E c h = Inr (Some (img c))"
  shows "fst (docker_list_containers (Some E) all t) =
    [0x1F4E6] @ ascii '' **'' @ [0x5BB9, 0x5668, 0x5217, 0x8868] @ ascii '' (''
    @ str_nat (length cs) @ ascii '')**:'' @ [10]
    @ concat (map (\<lambda>c.
        (if c_status c = ascii ''running'' then [0x1F7E2] else [0x1F534])
        @ ascii '' **'' @ c_name c @ ascii ''**'' @ [10]
        @ ascii ''   ID: '' @ c_short_id c @ ascii '' | Stat: '' @ c_status c
        @ ascii '' | img: ''
        @ (case i_tags (img c) of [] \<Rightarrow> ascii ''none'' | tag # tags \<Rightarrow> tag) @ [10]) cs)"
proof -
  have "docker_list_containers (Some E) all t =
      except_Exception msg_list_failed
        (list_loop E cs (list_header (length cs)) (t @ [Containers_list all]))"
    using assms(1,2)
    by (simp add: docker_list_containers_def check_client_Some client_attr_def then_do_def
        perform_def)
  moreover have "fst (except_Exception p r) = s" if "fst r = Inr s" for p r s
    using that by (cases r) (auto simp: except_Exception_def)
  ultimately show ?thesis
    using list_loop_fixed_images [OF assms(3)]
    by (simp add: list_header_def)
qed

text \<open>
  The listing after \<open>web1\<close> has been started with port 80 published on host port 8080.
\<close>

theorem list_entries_without_ports_witness:
  "containers_list (sample_engine (ascii ''created'')) True
      [Containers_run (ascii ''nginx:latest'') (Some (ascii ''web1''))
         (PyDict [(PyStr (ascii ''80/tcp''), PyInt 8080)]) None]
     = Inr [sample_container (ascii ''running'')]
   \<and> [sample_container (ascii ''running'')] \<noteq> []
   \<and> container_image (sample_engine (ascii ''created'')) (sample_container (ascii ''running''))
        [Containers_run (ascii ''nginx:latest'') (Some (ascii ''web1''))
           (PyDict [(PyStr (ascii ''80/tcp''), PyInt 8080)]) None, Containers_list True]
     = Inr (Some \<lparr>i_tags = [ascii ''nginx:latest''], attrs_Size = 187000000\<rparr>)
   \<and> c_ports (sample_container (ascii ''running''))
     = [(ascii ''80/tcp'', Some [\<lparr>HostIp = ascii ''0.0.0.0'', HostPort = ascii ''8080''\<rparr>])]
   \<and> fst (docker_list_containers (Some (sample_engine (ascii ''created''))) True
        [Containers_run (ascii ''nginx:latest'') (Some (ascii ''web1''))
           (PyDict [(PyStr (ascii ''80/tcp''), PyInt 8080)]) None])
     = [0x1F4E6] @ ascii '' **'' @ [0x5BB9, 0x5668, 0x5217, 0x8868] @ ascii '' (1)**:'' @ [10]
       @ [0x1F7E2] @ ascii '' **web1**'' @ [10]
       @ ascii ''   ID: 3f2a9c1b7d4e | Stat: running | img: nginx:latest'' @ [10]"
proof -
  have c: "containers_list (sample_engine (ascii ''created'')) True
        [Containers_run (ascii ''nginx:latest'') (Some (ascii ''web1''))
           (PyDict [(PyStr (ascii ''80/tcp''), PyInt 8080)]) None]
      = Inr [sample_container (ascii ''running'')]"
    by (rule sample_list_after_run) simp
  have n: "[sample_container (ascii ''running'')] \<noteq> []" by simp
  have i: "\<forall>c \<in> set [sample_container (ascii ''running'')]. \<forall>h.
      container_image (sample_engine (ascii ''created'')) c h
        = Inr (Some ((\<lambda>c. \<lparr>i_tags = [ascii ''nginx:latest''], attrs_Size = 187000000\<rparr>) c))"
    by (simp add: sample_image)
  have p: "c_ports (sample_container (ascii ''running''))
     = [(ascii ''80/tcp'', Some [\<lparr>HostIp = ascii ''0.0.0.0'', HostPort = ascii ''8080''\<rparr>])]"
    by (simp add: sample_container_def)
  have "fst (docker_list_containers (Some (sample_engine (ascii ''created''))) True
        [Containers_run (ascii ''nginx:latest'') (Some (ascii ''web1''))
           (PyDict [(PyStr (ascii ''80/tcp''), PyInt 8080)]) None])
     = [0x1F4E6] @ ascii '' **'' @ [0x5BB9, 0x5668, 0x5217, 0x8868] @ ascii '' (1)**:'' @ [10]
       @ [0x1F7E2] @ ascii '' **web1**'' @ [10]
       @ ascii ''   ID: 3f2a9c1b7d4e | Stat: running | img: nginx:latest'' @ [10]"
    using list_entries_without_ports [OF c n i]
    by (simp add: sample_status sample_name sample_short_id str_nat.simps ascii_def)
  then show ?thesis
    using c n p by (simp add: sample_image)
qed

text \<open>
  The claim as first stated fails on this scenario: the container's port text is
  \<open>80/tcp->8080\<close>, and the listing does not hold \<open>8080\<close> anywhere.
\<close>

theorem list_port_mapping_counterexample:
  "docker_run_container literal_eval_extract (Some (sample_engine (ascii ''created'')))
      (ascii ''nginx:latest'') (Some (ascii ''web1'')) (Some ports_literal) None []
     = (msg_run_ok (ascii ''web1'') (ascii ''3f2a9c1b7d4e''),
        [Containers_run (ascii ''nginx:latest'') (Some (ascii ''web1''))
           (PyDict [(PyStr (ascii ''80/tcp''), PyInt 8080)]) None])
   \<and> ports_text (sample_container (ascii ''running'')) = ascii ''80/tcp->8080''
   \<and> fst (docker_list_containers (Some (sample_engine (ascii ''created''))) True
        [Containers_run (ascii ''nginx:latest'') (Some (ascii ''web1''))
           (PyDict [(PyStr (ascii ''80/tcp''), PyInt 8080)]) None])
     = [0x1F4E6] @ ascii '' **'' @ [0x5BB9, 0x5668, 0x5217, 0x8868] @ ascii '' (1)**:'' @ [10]
       @ [0x1F7E2] @ ascii '' **web1**'' @ [10]
       @ ascii ''   ID: 3f2a9c1b7d4e | Stat: running | img: nginx:latest'' @ [10]
   \<and> \<not> py_in (ascii ''8080'')
        (fst (docker_list_containers (Some (sample_engine (ascii ''created''))) True
           [Containers_run (ascii ''nginx:latest'') (Some (ascii ''web1''))
              (PyDict [(PyStr (ascii ''80/tcp''), PyInt 8080)]) None]))"
proof -
  have p: "ports_literal \<noteq> []" by (simp add: ports_literal_def)
  have l: "literal_eval_extract ports_literal
      = Inr (PyDict [(PyStr (ascii ''80/tcp''), PyInt 8080)])"
    by (simp add: literal_eval_extract_def ports_literal_def ascii_def)
  have r: "docker_run_container literal_eval_extract (Some (sample_engine (ascii ''created'')))
      (ascii ''nginx:latest'') (Some (ascii ''web1'')) (Some ports_literal) None []
     = (msg_run_ok (ascii ''web1'') (ascii ''3f2a9c1b7d4e''),
        [Containers_run (ascii ''nginx:latest'') (Some (ascii ''web1''))
           (PyDict [(PyStr (ascii ''80/tcp''), PyInt 8080)]) None])"
    by (simp add: run_container_connected parse_ports_def p l sample_run sample_name
        sample_short_id)
  have c: "containers_list (sample_engine (ascii ''created'')) True
        [Containers_run (ascii ''nginx:latest'') (Some (ascii ''web1''))
           (PyDict [(PyStr (ascii ''80/tcp''), PyInt 8080)]) None]
      = Inr [sample_container (ascii ''running'')]"
    by (rule sample_list_after_run) simp
  have "fst (docker_list_containers (Some (sample_engine (ascii ''created''))) True
        [Containers_run (ascii ''nginx:latest'') (Some (ascii ''web1''))
           (PyDict [(PyStr (ascii ''80/tcp''), PyInt 8080)]) None])
     = list_header 1 @ [0x1F7E2] @ ascii '' **'' @ ascii ''web1'' @ ascii ''**'' @ [10]
       @ ascii ''   ID: '' @ ascii ''3f2a9c1b7d4e'' @ ascii '' | Stat: '' @ ascii ''running''
       @ ascii '' | img: '' @ ascii ''nginx:latest'' @ [10]"
    by (simp add: docker_list_containers_def check_client_Some client_attr_def then_do_def
        perform_def except_Exception_def c sample_first_tag sample_name sample_short_id
        sample_status)
  then have t: "fst (docker_list_containers (Some (sample_engine (ascii ''created''))) True
        [Containers_run (ascii ''nginx:latest'') (Some (ascii ''web1''))
           (PyDict [(PyStr (ascii ''80/tcp''), PyInt 8080)]) None])
     = [0x1F4E6] @ ascii '' **'' @ [0x5BB9, 0x5668, 0x5217, 0x8868] @ ascii '' (1)**:'' @ [10]
       @ [0x1F7E2] @ ascii '' **web1**'' @ [10]
       @ ascii ''   ID: 3f2a9c1b7d4e | Stat: running | img: nginx:latest'' @ [10]"
    by (simp only: sample_listing)
  show ?thesis
    using r t sample_listing_no_port by (simp only: sample_ports_text simp_thms)
qed



end
